theory Spec2Isabelle
  imports Main "HOL-Library.Sublist" "HOL-Library.Word"
begin

section \<open>The upload server: data\<close>

text \<open>
  A shallow embedding of \<^verbatim>\<open>src/server.js\<close>: an Express application that forwards
  uploaded files to Cloudinary and keeps two module-level variables,
  \<^verbatim>\<open>filesDatabase\<close> (an array of metadata objects) and \<^verbatim>\<open>statsDatabase\<close> (four
  counters). Every route handler becomes a function from the request, the answer of the
  remote provider and the two variables to the HTTP response, the remote calls made and
  the two variables afterwards.

  Field names are the source's; four fields are renamed because HOL has constants of the
  same name or because two objects of the source share a field name:
  \<^verbatim>\<open>req.file.size\<close> is \<open>req_size\<close>, \<^verbatim>\<open>result.format\<close> is \<open>result_format\<close>,
  \<^verbatim>\<open>result.resource_type\<close> is \<open>result_resource_type\<close>, and the \<^verbatim>\<open>id\<close> and
  \<^verbatim>\<open>size\<close> of a metadata object are \<open>file_id\<close> and \<open>file_size\<close>.
  A property of a JavaScript object that may be \<^verbatim>\<open>undefined\<close> is an \<open>option\<close>.
\<close>

text \<open>\<^verbatim>\<open>req.file\<close>, as the multer middleware (memory storage) fills it in.\<close>

record req_file =
  originalname :: string
  mimetype :: string
  req_size :: nat
  buffer :: "8 word list"

text \<open>The options object passed to \<^verbatim>\<open>cloudinary.uploader.upload_stream\<close> (lines 74-79).\<close>

record upload_options =
  resource_type :: string
  folder :: string
  use_filename :: bool
  unique_filename :: bool

text \<open>The \<^verbatim>\<open>result\<close> object the provider hands to the upload callback.\<close>

record upload_result =
  public_id :: string
  secure_url :: string
  thumbnail_url :: "string option"
  result_format :: "string option"
  result_resource_type :: "string option"

text \<open>The metadata object \<^verbatim>\<open>fileData\<close> (lines 91-101), an element of \<^verbatim>\<open>filesDatabase\<close>.\<close>

record file_data =
  file_id :: string
  name :: string
  type :: string
  file_size :: nat
  url :: string
  thumbnail :: string
  timestamp :: string
  format :: "string option"
  resourceType :: "string option"

text \<open>
  \<^verbatim>\<open>statsDatabase\<close> (lines 34-39). The counters are JavaScript numbers that only ever
  change by \<^verbatim>\<open>++\<close> and \<^verbatim>\<open>--\<close>; they are integers here (below \<open>2^53\<close> a double
  counts exactly), and nothing in the type keeps them from going negative.
\<close>

record stats =
  totalUploads :: int
  totalImages :: int
  totalVideos :: int
  totalOthers :: int

text \<open>The two module-level variables together.\<close>

record registry =
  filesDatabase :: "file_data list"
  statsDatabase :: stats

definition initial :: registry where
  "initial =
     \<lparr>filesDatabase = [],
      statsDatabase = \<lparr>totalUploads = 0, totalImages = 0, totalVideos = 0, totalOthers = 0\<rparr>\<rparr>"

text \<open>
  A response is a status code and the object given to \<^verbatim>\<open>res.json\<close>, as the list of its
  properties in the order of the object literal.
\<close>

datatype js_value =
  JBool bool
| JStr string
| JFile file_data
| JFiles "file_data list"
| JStats stats

record response =
  status :: nat
  body :: "(string \<times> js_value) list"

text \<open>
  What the provider is asked to do, and how it answers. An upload either throws inside
  the \<^verbatim>\<open>try\<close> block, or calls back with an error, or calls back with a result; a
  destroy either rejects (the \<^verbatim>\<open>await\<close> throws) or resolves. The strings are
  \<^verbatim>\<open>error.message\<close>.
\<close>

datatype remote_call =
  UploadStream upload_options "8 word list"
| Destroy string string

datatype upload_outcome =
  UploadThrows string
| UploadError string
| UploadOk upload_result

datatype destroy_outcome =
  DestroyRejects string
| DestroyOk

section \<open>JavaScript primitives\<close>

text \<open>\<^verbatim>\<open>s.startsWith(p)\<close>.\<close>

fun startsWith :: "string \<Rightarrow> string \<Rightarrow> bool" where
  "startsWith s [] = True"
| "startsWith [] (p # ps) = False"
| "startsWith (c # cs) (p # ps) = (c = p \<and> startsWith cs ps)"

text \<open>
  \<^verbatim>\<open>a || b\<close> where \<open>a\<close> is a string or \<^verbatim>\<open>undefined\<close>: both \<^verbatim>\<open>undefined\<close> and
  the empty string are falsy.
\<close>

definition js_or :: "string option \<Rightarrow> string \<Rightarrow> string" where
  "js_or a b = (case a of None \<Rightarrow> b | Some v \<Rightarrow> if v = [] then b else v)"

text \<open>\<^verbatim>\<open>!!a\<close> for the same kind of value.\<close>

definition truthy :: "string option \<Rightarrow> bool" where
  "truthy a = (case a of None \<Rightarrow> False | Some v \<Rightarrow> v \<noteq> [])"

text \<open>
  \<^verbatim>\<open>xs.findIndex(P)\<close>: the index of the first element satisfying \<open>P\<close>; \<open>None\<close>
  stands for the source's \<^verbatim>\<open>-1\<close>.
\<close>

fun findIndex :: "('a \<Rightarrow> bool) \<Rightarrow> 'a list \<Rightarrow> nat option" where
  "findIndex P [] = None"
| "findIndex P (x # xs) = (if P x then Some 0 else map_option Suc (findIndex P xs))"

text \<open>
  \<^verbatim>\<open>xs.splice(start, deleteCount)\<close> for a non-negative start, as the array it leaves
  behind. A start beyond the end deletes nothing, as in JavaScript.
\<close>

definition splice :: "nat \<Rightarrow> nat \<Rightarrow> 'a list \<Rightarrow> 'a list" where
  "splice start deleteCount xs = take start xs @ drop (start + deleteCount) xs"

section \<open>The route handlers\<close>

text \<open>GET /api/files (lines 44-50).\<close>

definition get_files :: "registry \<Rightarrow> response \<times> remote_call list \<times> registry" where
  "get_files db =
     (\<lparr>status = 200,
       body = [(''success'', JBool True),
               (''files'', JFiles (filesDatabase db)),
               (''stats'', JStats (statsDatabase db))]\<rparr>,
      [], db)"

text \<open>The resource type of an upload (lines 63-70).\<close>

definition upload_resourceType :: "string \<Rightarrow> string" where
  "upload_resourceType mime =
     (let resourceType = ''auto'' in
      if startsWith mime ''video/'' then ''video''
      else if startsWith mime ''image/'' then ''image''
      else ''raw'')"

text \<open>The object literal \<^verbatim>\<open>fileData\<close> (lines 91-101); \<open>now\<close> is \<^verbatim>\<open>new Date().toISOString()\<close>.\<close>

definition make_fileData :: "req_file \<Rightarrow> upload_result \<Rightarrow> string \<Rightarrow> file_data" where
  "make_fileData file result now =
     \<lparr>file_id = public_id result,
      name = originalname file,
      type = mimetype file,
      file_size = req_size file,
      url = secure_url result,
      thumbnail = js_or (thumbnail_url result) (secure_url result),
      timestamp = now,
      format = result_format result,
      resourceType = result_resource_type result\<rparr>"

text \<open>
  POST /api/upload (lines 53-134). \<open>file\<close> is \<^verbatim>\<open>req.file\<close>, absent when the request
  carried no file; \<open>outcome\<close> is the provider's answer, looked at only once the upload
  has been started.
\<close>

definition post_upload ::
  "req_file option \<Rightarrow> upload_outcome \<Rightarrow> string \<Rightarrow> registry
     \<Rightarrow> response \<times> remote_call list \<times> registry" where
  "post_upload file outcome now db =
     (case file of
        None \<Rightarrow>
          (\<lparr>status = 400,
            body = [(''success'', JBool False), (''message'', JStr ''No file uploaded'')]\<rparr>,
           [], db)
      | Some f \<Rightarrow>
          let resourceType = upload_resourceType (mimetype f);
              call = UploadStream
                       \<lparr>resource_type = resourceType, folder = ''uploads'',
                        use_filename = True, unique_filename = True\<rparr>
                       (buffer f)
          in (case outcome of
                UploadThrows msg \<Rightarrow>
                  (\<lparr>status = 500,
                    body = [(''success'', JBool False), (''message'', JStr ''Server error''),
                            (''error'', JStr msg)]\<rparr>,
                   [call], db)
              | UploadError msg \<Rightarrow>
                  (\<lparr>status = 500,
                    body = [(''success'', JBool False), (''message'', JStr ''Upload failed''),
                            (''error'', JStr msg)]\<rparr>,
                   [call], db)
              | UploadOk result \<Rightarrow>
                  let fileData = make_fileData f result now;
                      files = fileData # filesDatabase db;
                      st = statsDatabase db;
                      st1 = st\<lparr>totalUploads := totalUploads st + 1\<rparr>;
                      st2 = (if startsWith (mimetype f) ''image/''
                             then st1\<lparr>totalImages := totalImages st1 + 1\<rparr>
                             else if startsWith (mimetype f) ''video/''
                             then st1\<lparr>totalVideos := totalVideos st1 + 1\<rparr>
                             else st1\<lparr>totalOthers := totalOthers st1 + 1\<rparr>)
                  in (\<lparr>status = 200,
                       body = [(''success'', JBool True),
                               (''message'', JStr ''File uploaded successfully''),
                               (''file'', JFile fileData),
                               (''stats'', JStats st2)]\<rparr>,
                      [call],
                      \<lparr>filesDatabase = files, statsDatabase = st2\<rparr>)))"

text \<open>
  DELETE /api/files/:id (lines 137-183). The handler looks the record up, awaits the
  provider's destroy, and only then touches the two variables; \<open>outcome\<close> is how the
  awaited call ended. Here the handler runs with no other request between its lookup
  and its update; its two parts are \<open>delete_lookup\<close> and \<open>delete_resume\<close> below.
\<close>

definition delete_file ::
  "string \<Rightarrow> destroy_outcome \<Rightarrow> registry \<Rightarrow> response \<times> remote_call list \<times> registry" where
  "delete_file fileId outcome db =
     (case findIndex (\<lambda>f. file_id f = fileId) (filesDatabase db) of
        None \<Rightarrow>
          (\<lparr>status = 404,
            body = [(''success'', JBool False), (''message'', JStr ''File not found'')]\<rparr>,
           [], db)
      | Some fileIndex \<Rightarrow>
          let file = filesDatabase db ! fileIndex;
              call = Destroy fileId (js_or (resourceType file) ''image'')
          in (case outcome of
                DestroyRejects msg \<Rightarrow>
                  (\<lparr>status = 500,
                    body = [(''success'', JBool False), (''message'', JStr ''Delete failed''),
                            (''error'', JStr msg)]\<rparr>,
                   [call], db)
              | DestroyOk \<Rightarrow>
                  let st = statsDatabase db;
                      st1 = st\<lparr>totalUploads := totalUploads st - 1\<rparr>;
                      st2 = (if startsWith (type file) ''image/''
                             then st1\<lparr>totalImages := totalImages st1 - 1\<rparr>
                             else if startsWith (type file) ''video/''
                             then st1\<lparr>totalVideos := totalVideos st1 - 1\<rparr>
                             else st1\<lparr>totalOthers := totalOthers st1 - 1\<rparr>);
                      files = splice fileIndex 1 (filesDatabase db)
                  in (\<lparr>status = 200,
                       body = [(''success'', JBool True),
                               (''message'', JStr ''File deleted successfully''),
                               (''stats'', JStats st2)]\<rparr>,
                      [call],
                      \<lparr>filesDatabase = files, statsDatabase = st2\<rparr>)))"

text \<open>GET /api/stats (lines 186-191).\<close>

definition get_stats :: "registry \<Rightarrow> response \<times> remote_call list \<times> registry" where
  "get_stats db =
     (\<lparr>status = 200,
       body = [(''success'', JBool True), (''stats'', JStats (statsDatabase db))]\<rparr>,
      [], db)"

text \<open>
  GET /api/health (lines 194-200). \<open>env\<close> is \<^verbatim>\<open>process.env\<close>: a variable is a string
  or is not set.
\<close>

definition get_health ::
  "(string \<rightharpoonup> string) \<Rightarrow> registry \<Rightarrow> response \<times> remote_call list \<times> registry" where
  "get_health env db =
     (\<lparr>status = 200,
       body = [(''success'', JBool True),
               (''message'', JStr ''Server is running''),
               (''cloudinary'', JBool (truthy (env ''CLOUDINARY_CLOUD_NAME'')))]\<rparr>,
      [], db)"

text \<open>The three components of a handler's result.\<close>

definition response_of :: "response \<times> remote_call list \<times> registry \<Rightarrow> response" where
  "response_of r = fst r"

definition calls_of :: "response \<times> remote_call list \<times> registry \<Rightarrow> remote_call list" where
  "calls_of r = fst (snd r)"

definition registry_of :: "response \<times> remote_call list \<times> registry \<Rightarrow> registry" where
  "registry_of r = snd (snd r)"

section \<open>Requests handled one after another\<close>

text \<open>
  A request together with what the outside world answers while it is handled: the
  provider's outcome and, for an upload, the clock. \<open>run\<close> handles a list of
  requests of which no two overlap: each handler finishes before the next request
  arrives. Overlapping requests are modelled further down.
\<close>

datatype request =
  GetFiles
| PostUpload "req_file option" upload_outcome string
| DeleteFile string destroy_outcome
| GetStats
| GetHealth

fun handle ::
  "(string \<rightharpoonup> string) \<Rightarrow> request \<Rightarrow> registry \<Rightarrow> response \<times> remote_call list \<times> registry" where
  "handle env GetFiles db = get_files db"
| "handle env (PostUpload file outcome now) db = post_upload file outcome now db"
| "handle env (DeleteFile fileId outcome) db = delete_file fileId outcome db"
| "handle env GetStats db = get_stats db"
| "handle env GetHealth db = get_health env db"

fun run :: "(string \<rightharpoonup> string) \<Rightarrow> request list \<Rightarrow> registry \<Rightarrow> registry" where
  "run env [] db = db"
| "run env (r # rs) db = run env rs (registry_of (handle env r db))"

section \<open>The delete handler around its await\<close>

text \<open>
  The delete handler is suspended at its \<^verbatim>\<open>await\<close> (line 152). What it does before
  the suspension and what it does when it is resumed are given separately here: the
  lookup keeps \<^verbatim>\<open>fileIndex\<close> and \<^verbatim>\<open>file\<close>, and the resumed part uses them on
  the two variables as they are by then.
\<close>

definition delete_lookup :: "string \<Rightarrow> registry \<Rightarrow> response + nat \<times> file_data" where
  "delete_lookup fileId db =
     (case findIndex (\<lambda>f. file_id f = fileId) (filesDatabase db) of
        None \<Rightarrow>
          Inl \<lparr>status = 404,
               body = [(''success'', JBool False), (''message'', JStr ''File not found'')]\<rparr>
      | Some fileIndex \<Rightarrow> Inr (fileIndex, filesDatabase db ! fileIndex))"

definition delete_resume ::
  "string \<Rightarrow> nat \<Rightarrow> file_data \<Rightarrow> destroy_outcome \<Rightarrow> registry
     \<Rightarrow> response \<times> remote_call list \<times> registry" where
  "delete_resume fileId fileIndex file outcome db =
     (let call = Destroy fileId (js_or (resourceType file) ''image'')
      in (case outcome of
            DestroyRejects msg \<Rightarrow>
              (\<lparr>status = 500,
                body = [(''success'', JBool False), (''message'', JStr ''Delete failed''),
                        (''error'', JStr msg)]\<rparr>,
               [call], db)
          | DestroyOk \<Rightarrow>
              let st = statsDatabase db;
                  st1 = st\<lparr>totalUploads := totalUploads st - 1\<rparr>;
                  st2 = (if startsWith (type file) ''image/''
                         then st1\<lparr>totalImages := totalImages st1 - 1\<rparr>
                         else if startsWith (type file) ''video/''
                         then st1\<lparr>totalVideos := totalVideos st1 - 1\<rparr>
                         else st1\<lparr>totalOthers := totalOthers st1 - 1\<rparr>);
                  files = splice fileIndex 1 (filesDatabase db)
              in (\<lparr>status = 200,
                   body = [(''success'', JBool True),
                           (''message'', JStr ''File deleted successfully''),
                           (''stats'', JStats st2)]\<rparr>,
                  [call],
                  \<lparr>filesDatabase = files, statsDatabase = st2\<rparr>)))"

section \<open>Requests that overlap\<close>

text \<open>
  Node runs one handler at a time, but a handler that awaits gives way to others. The
  upload handler reads and writes the two variables only inside its callback, the GET
  handlers are synchronous, so each of them touches the registry in one piece. The
  delete handler does not: between its lookup and its resumption other events may
  happen. A process state is the registry together with the delete handlers suspended
  at the \<^verbatim>\<open>await\<close>, each with its \<^verbatim>\<open>fileId\<close>, \<^verbatim>\<open>fileIndex\<close> and \<^verbatim>\<open>file\<close>.
  An event is a handler run in one piece, the arrival of a DELETE request (its lookup),
  or the resumption of the \<open>k\<close>-th suspended delete with the outcome of its destroy.
  Each event yields the responses sent during it.
\<close>

record process =
  registry_now :: registry
  suspended :: "(string \<times> nat \<times> file_data) list"

datatype event =
  Whole request
| DeleteArrives string
| DeleteResumes nat destroy_outcome

fun step ::
  "(string \<rightharpoonup> string) \<Rightarrow> event \<Rightarrow> process \<Rightarrow> response list \<times> process" where
  "step env (Whole r) p =
     (let res = handle env r (registry_now p)
      in ([response_of res], p\<lparr>registry_now := registry_of res\<rparr>))"
| "step env (DeleteArrives fileId) p =
     (case delete_lookup fileId (registry_now p) of
        Inl resp \<Rightarrow> ([resp], p)
      | Inr (fileIndex, file) \<Rightarrow>
          ([], p\<lparr>suspended := suspended p @ [(fileId, fileIndex, file)]\<rparr>))"
| "step env (DeleteResumes k outcome) p =
     (if k < length (suspended p)
      then (case suspended p ! k of
              (fileId, fileIndex, file) \<Rightarrow>
                let res = delete_resume fileId fileIndex file outcome (registry_now p)
                in ([response_of res],
                    \<lparr>registry_now = registry_of res,
                     suspended = splice k 1 (suspended p)\<rparr>))
      else ([], p))"

fun play ::
  "(string \<rightharpoonup> string) \<Rightarrow> event list \<Rightarrow> process \<Rightarrow> response list \<times> process" where
  "play env [] p = ([], p)"
| "play env (e # es) p =
     (case step env e p of
        (sent, p') \<Rightarrow> (case play env es p' of (sent', p'') \<Rightarrow> (sent @ sent', p'')))"

text \<open>The process at its start: the empty registry, no handler suspended.\<close>

definition started :: process where
  "started = \<lparr>registry_now = initial, suspended = []\<rparr>"

section \<open>Notions of the specification\<close>

text \<open>
  The statistics bucket of a MIME type, following the specification's wording of
  \<^verbatim>\<open>classify\<close>: a string beginning with \<^verbatim>\<open>image/\<close> is counted as an image, one
  beginning with \<^verbatim>\<open>video/\<close> as a video, anything else as other. It is stated with
  the library's \<open>prefix\<close>, and compared with the handlers' own tests below.
\<close>

datatype bucket = Images | Videos | Others

definition spec_classify :: "string \<Rightarrow> bucket" where
  "spec_classify mimeType =
     (if prefix ''image/'' mimeType then Images
      else if prefix ''video/'' mimeType then Videos
      else Others)"

text \<open>The specification's invariant on the counters.\<close>

definition sum_ok :: "stats \<Rightarrow> bool" where
  "sum_ok st = (totalUploads st = totalImages st + totalVideos st + totalOthers st)"

text \<open>
  The counters one obtains by counting the array: its length, and the number of its
  records in each bucket, by the test the handlers apply to \<^verbatim>\<open>type\<close>.
\<close>

definition count_stats :: "file_data list \<Rightarrow> stats" where
  "count_stats files =
     \<lparr>totalUploads = int (length files),
      totalImages = int (length (filter (\<lambda>f. startsWith (type f) ''image/'') files)),
      totalVideos = int (length (filter (\<lambda>f. \<not> startsWith (type f) ''image/''
                                              \<and> startsWith (type f) ''video/'') files)),
      totalOthers = int (length (filter (\<lambda>f. \<not> startsWith (type f) ''image/''
                                              \<and> \<not> startsWith (type f) ''video/'') files))\<rparr>"

definition counted :: "registry \<Rightarrow> bool" where
  "counted db = (statsDatabase db = count_stats (filesDatabase db))"

section \<open>Concrete requests and states\<close>

text \<open>A registry holding one image; one holding a video whose record has no resource type.\<close>

definition db1 :: registry where
  "db1 =
     \<lparr>filesDatabase =
        [\<lparr>file_id = ''uploads/a'', name = ''a.png'', type = ''image/png'', file_size = 100,
          url = ''https://res/a.png'', thumbnail = ''https://res/a.png'',
          timestamp = ''2024-01-01T00:00:00.000Z'', format = Some ''png'',
          resourceType = Some ''image''\<rparr>],
      statsDatabase = \<lparr>totalUploads = 1, totalImages = 1, totalVideos = 0, totalOthers = 0\<rparr>\<rparr>"

definition db2 :: registry where
  "db2 =
     \<lparr>filesDatabase =
        [\<lparr>file_id = ''uploads/clip'', name = ''clip.mp4'', type = ''video/mp4'', file_size = 7,
          url = ''https://res/clip.mp4'', thumbnail = ''https://res/clip.mp4'',
          timestamp = ''2024-01-01T00:00:00.000Z'', format = Some ''mp4'',
          resourceType = None\<rparr>],
      statsDatabase = \<lparr>totalUploads = 1, totalImages = 0, totalVideos = 1, totalOthers = 0\<rparr>\<rparr>"

definition png :: req_file where
  "png = \<lparr>originalname = ''cat.png'', mimetype = ''image/png'', req_size = 3,
          buffer = [137, 80, 78]\<rparr>"

definition png_result :: upload_result where
  "png_result =
     \<lparr>public_id = ''uploads/cat_x1'', secure_url = ''https://res/cat_x1.png'',
      thumbnail_url = None, result_format = Some ''png'',
      result_resource_type = Some ''image''\<rparr>"

definition env1 :: "string \<rightharpoonup> string" where
  "env1 = map_of [(''CLOUDINARY_CLOUD_NAME'', ''demo'')]"

section \<open>Facts about the primitives\<close>

lemma startsWith_prefix: "startsWith s p = prefix p s"
  by (induction s p rule: startsWith.induct) auto

lemma findIndex_None_iff: "findIndex P xs = None \<longleftrightarrow> (\<forall>x \<in> set xs. \<not> P x)"
  by (induction xs) auto

lemma findIndex_Some:
  "findIndex P xs = Some i \<Longrightarrow> i < length xs \<and> P (xs ! i) \<and> (\<forall>j < i. \<not> P (xs ! j))"
proof (induction xs arbitrary: i)
  case Nil
  then show ?case by simp
next
  case (Cons x xs)
  show ?case
  proof (cases "P x")
    case True
    with Cons.prems show ?thesis by simp
  next
    case False
    with Cons.prems obtain k where k: "findIndex P xs = Some k" "i = Suc k"
      by auto
    from Cons.IH [OF k(1)] False k(2) show ?thesis
      by (auto simp: less_Suc_eq_0_disj)
  qed
qed

lemma length_splice:
  "i < length xs \<Longrightarrow> int (length (splice i (Suc 0) xs)) = int (length xs) - 1"
  by (simp add: splice_def)

lemma length_filter_splice:
  assumes "i < length xs"
  shows "int (length (filter Q (splice i (Suc 0) xs)))
           = int (length (filter Q xs)) - of_bool (Q (xs ! i))"
proof -
  have "filter Q xs = filter Q (take i xs) @ filter Q [xs ! i] @ filter Q (drop (Suc i) xs)"
    using id_take_nth_drop [OF assms] by (metis append_Cons append_Nil filter_append)
  then show ?thesis
    by (simp add: splice_def)
qed

text \<open>
  With nothing happening between the lookup and the resumption, the two parts of the
  delete handler make up \<open>delete_file\<close>.
\<close>

lemma delete_file_phases:
  "delete_file fileId outcome db
     = (case delete_lookup fileId db of
          Inl resp \<Rightarrow> (resp, [], db)
        | Inr (fileIndex, file) \<Rightarrow> delete_resume fileId fileIndex file outcome db)"
  by (simp add: delete_file_def delete_lookup_def delete_resume_def Let_def
        split: option.split)

section \<open>The counters\<close>

lemma sum_ok_post_upload:
  "sum_ok (statsDatabase db)
     \<Longrightarrow> sum_ok (statsDatabase (registry_of (post_upload upl outcome now db)))"
  by (cases upl; cases outcome)
     (simp_all add: sum_ok_def post_upload_def registry_of_def Let_def)

lemma sum_ok_delete_file:
  "sum_ok (statsDatabase db)
     \<Longrightarrow> sum_ok (statsDatabase (registry_of (delete_file fileId outcome db)))"
  by (cases outcome)
     (simp_all add: sum_ok_def delete_file_def registry_of_def Let_def split: option.split)

lemma sum_ok_handle:
  "sum_ok (statsDatabase db) \<Longrightarrow> sum_ok (statsDatabase (registry_of (handle env r db)))"
  by (cases r)
     (simp_all add: sum_ok_post_upload sum_ok_delete_file,
      simp_all add: get_files_def get_stats_def get_health_def registry_of_def)

lemma sum_ok_run: "sum_ok (statsDatabase db) \<Longrightarrow> sum_ok (statsDatabase (run env rs db))"
  by (induction rs arbitrary: db) (simp_all add: sum_ok_handle)

text \<open>
  C1: whatever requests are handled, one after another, from the empty registry, with
  whatever outcomes of the remote calls, the total counter equals the sum of the three
  bucket counters afterwards. Every prefix of a list of requests is a list of requests,
  so this holds after each request, and in particular after each successful upload and
  each successful delete.
\<close>

theorem total_is_sum_of_buckets:
  "totalUploads (statsDatabase (run env reqs initial))
     = totalImages (statsDatabase (run env reqs initial))
       + totalVideos (statsDatabase (run env reqs initial))
       + totalOthers (statsDatabase (run env reqs initial))"
proof -
  have "sum_ok (statsDatabase initial)"
    by (simp add: sum_ok_def initial_def)
  then have "sum_ok (statsDatabase (run env reqs initial))"
    by (rule sum_ok_run)
  then show ?thesis
    by (simp add: sum_ok_def)
qed

text \<open>
  The same holds when requests overlap: the resumed part of a delete takes one from the
  total and one from a bucket whatever record and index it kept, so the sum survives
  every schedule of events. Handlers run one after another are the schedules made of
  whole handlers only.
\<close>

lemma sum_ok_delete_resume:
  "sum_ok (statsDatabase db)
     \<Longrightarrow> sum_ok (statsDatabase (registry_of (delete_resume fileId i file outcome db)))"
  by (cases outcome) (simp_all add: sum_ok_def delete_resume_def registry_of_def Let_def)

lemma sum_ok_step:
  "sum_ok (statsDatabase (registry_now p))
     \<Longrightarrow> sum_ok (statsDatabase (registry_now (snd (step env e p))))"
  by (cases e)
     (auto simp: sum_ok_handle sum_ok_delete_resume Let_def split: sum.split prod.split)

lemma sum_ok_play:
  "sum_ok (statsDatabase (registry_now p))
     \<Longrightarrow> sum_ok (statsDatabase (registry_now (snd (play env es p))))"
proof (induction es arbitrary: p)
  case Nil
  then show ?case by simp
next
  case (Cons e es)
  from Cons.IH [OF sum_ok_step [OF Cons.prems, of env e]] show ?case
    by (simp add: split_def)
qed

lemma sum_of_buckets_with_overlap:
  "sum_ok (statsDatabase (registry_now (snd (play env es started))))"
  by (rule sum_ok_play) (simp add: started_def initial_def sum_ok_def)

lemma play_whole:
  "registry_now (snd (play env (map Whole rs) p)) = run env rs (registry_now p)"
  by (induction rs arbitrary: p) (simp_all add: split_def Let_def)

lemma counted_initial: "counted initial"
  by (simp add: counted_def initial_def count_stats_def)

lemma counted_post_upload:
  "counted db \<Longrightarrow> counted (registry_of (post_upload upl outcome now db))"
  by (cases upl; cases outcome)
     (simp_all add: counted_def post_upload_def registry_of_def Let_def count_stats_def
        make_fileData_def)

lemma counted_delete_file:
  assumes "counted db"
  shows "counted (registry_of (delete_file fileId outcome db))"
proof (cases "findIndex (\<lambda>f. file_id f = fileId) (filesDatabase db)")
  case None
  with assms show ?thesis by (simp add: delete_file_def registry_of_def)
next
  case (Some i)
  from findIndex_Some [OF Some] have i: "i < length (filesDatabase db)" by simp
  show ?thesis
  proof (cases outcome)
    case (DestroyRejects msg)
    with Some assms show ?thesis by (simp add: delete_file_def registry_of_def Let_def)
  next
    case DestroyOk
    with Some assms i show ?thesis
      by (simp add: delete_file_def registry_of_def Let_def counted_def count_stats_def
            length_filter_splice length_splice)
  qed
qed

lemma counted_handle: "counted db \<Longrightarrow> counted (registry_of (handle env r db))"
  by (cases r)
     (simp_all add: counted_post_upload counted_delete_file,
      simp_all add: get_files_def get_stats_def get_health_def registry_of_def)

lemma counted_run: "counted db \<Longrightarrow> counted (run env rs db)"
  by (induction rs arbitrary: db) (simp_all add: counted_handle)

text \<open>
  As long as no two requests overlap, the counters are the counts of the array, by
  length and by bucket, and so are non-negative: a delete takes away the record whose
  stored \<^verbatim>\<open>type\<close> it classifies, with the test the upload used.
\<close>

lemma counters_counted_without_overlap:
  "0 \<le> totalUploads (statsDatabase (run env reqs initial))
   \<and> 0 \<le> totalImages (statsDatabase (run env reqs initial))
   \<and> 0 \<le> totalVideos (statsDatabase (run env reqs initial))
   \<and> 0 \<le> totalOthers (statsDatabase (run env reqs initial))
   \<and> statsDatabase (run env reqs initial) = count_stats (filesDatabase (run env reqs initial))"
proof -
  have "counted (run env reqs initial)"
    by (rule counted_run [OF counted_initial])
  then have eq:
    "statsDatabase (run env reqs initial) = count_stats (filesDatabase (run env reqs initial))"
    by (simp add: counted_def)
  show ?thesis
    unfolding eq by (simp add: count_stats_def)
qed

text \<open>
  C9 does not hold of the program. The delete handler checks that the record is there
  (lines 140-147) before the \<^verbatim>\<open>await\<close>, and after it decrements and splices with
  the index and record it found then, without looking again. One upload of an image and
  two DELETE requests for its identifier, both suspended before either is resumed, are
  all three answered with status 200 and leave the total and the image counter at
  \<open>-1\<close>: the second decrement has no earlier increment to match.
\<close>

theorem overlapping_deletes_negative:
  "map status (fst (play env1
       [Whole (PostUpload (Some png) (UploadOk png_result) ''2024-01-01T00:00:00.000Z''),
        DeleteArrives ''uploads/cat_x1'',
        DeleteArrives ''uploads/cat_x1'',
        DeleteResumes 0 DestroyOk,
        DeleteResumes 0 DestroyOk] started)) = [200, 200, 200]
   \<and> statsDatabase (registry_now (snd (play env1
       [Whole (PostUpload (Some png) (UploadOk png_result) ''2024-01-01T00:00:00.000Z''),
        DeleteArrives ''uploads/cat_x1'',
        DeleteArrives ''uploads/cat_x1'',
        DeleteResumes 0 DestroyOk,
        DeleteResumes 0 DestroyOk] started)))
     = \<lparr>totalUploads = - 1, totalImages = - 1, totalVideos = 0, totalOthers = 0\<rparr>"
  by (simp add: started_def initial_def png_def png_result_def post_upload_def
        make_fileData_def delete_lookup_def delete_resume_def response_of_def registry_of_def
        splice_def Let_def js_or_def)

section \<open>Uploads\<close>

text \<open>
  C2: an upload that succeeds puts its record at the front of the array: the list
  returned by GET /api/files right after it has the new record (the one the upload
  response reports as \<^verbatim>\<open>file\<close>) as first element and the previous array as tail.
\<close>

theorem upload_prepends:
  "filesDatabase (registry_of (post_upload (Some f) (UploadOk result) now db))
     = make_fileData f result now # filesDatabase db
   \<and> map_of (body (response_of (post_upload (Some f) (UploadOk result) now db))) ''file''
     = Some (JFile (make_fileData f result now))
   \<and> map_of (body (response_of
        (get_files (registry_of (post_upload (Some f) (UploadOk result) now db))))) ''files''
     = Some (JFiles (make_fileData f result now # filesDatabase db))"
  by (simp add: post_upload_def get_files_def registry_of_def response_of_def Let_def)

text \<open>
  C5: an upload request that carries a file makes exactly one remote call, an upload
  whose resource type is \<^verbatim>\<open>video\<close> when the MIME type begins with \<^verbatim>\<open>video/\<close>,
  \<^verbatim>\<open>image\<close> when it begins with \<^verbatim>\<open>image/\<close> and \<^verbatim>\<open>raw\<close> otherwise, whatever the
  provider answers; the value sent is never \<^verbatim>\<open>auto\<close>. A request without a file makes
  no remote call.
\<close>

theorem upload_resource_type_sent:
  "(let rt = (if prefix ''video/'' (mimetype f) then ''video''
              else if prefix ''image/'' (mimetype f) then ''image''
              else ''raw'')
    in calls_of (post_upload (Some f) outcome now db)
         = [UploadStream
              \<lparr>resource_type = rt, folder = ''uploads'',
               use_filename = True, unique_filename = True\<rparr>
              (buffer f)]
       \<and> rt \<noteq> ''auto'')
   \<and> calls_of (post_upload None outcome now db) = []"
  by (cases outcome)
     (simp_all add: post_upload_def calls_of_def Let_def upload_resourceType_def
        startsWith_prefix)

section \<open>Deletes\<close>

text \<open>
  C3: a delete for an identifier that no record of the array carries answers 404 with
  the message \<^verbatim>\<open>File not found\<close>, calls the provider not at all, and leaves the array
  and the counters as they were.
\<close>

theorem delete_unknown_id:
  assumes "fileId \<notin> file_id ` set (filesDatabase db)"
  shows "delete_file fileId outcome db
           = (\<lparr>status = 404,
                body = [(''success'', JBool False), (''message'', JStr ''File not found'')]\<rparr>,
              [], db)"
proof -
  from assms have "findIndex (\<lambda>f. file_id f = fileId) (filesDatabase db) = None"
    by (auto simp: findIndex_None_iff)
  then show ?thesis
    by (simp add: delete_file_def)
qed

theorem delete_unknown_id_witness:
  "''uploads/b'' \<notin> file_id ` set (filesDatabase db1)
   \<and> status (response_of (delete_file ''uploads/b'' DestroyOk db1)) = 404
   \<and> calls_of (delete_file ''uploads/b'' DestroyOk db1) = []
   \<and> registry_of (delete_file ''uploads/b'' DestroyOk db1) = db1"
proof -
  have h: "''uploads/b'' \<notin> file_id ` set (filesDatabase db1)"
    by (simp add: db1_def)
  show ?thesis
    using h delete_unknown_id [OF h, of DestroyOk]
    by (simp add: response_of_def calls_of_def registry_of_def)
qed

text \<open>
  C10: the record keeps the resource type the provider reported for the upload, and a
  delete of a record that is present calls the provider's destroy once, for the
  requested identifier, with the resource type stored in the record found, or with
  \<^verbatim>\<open>image\<close> when that field is undefined or empty. The MIME type of the record plays
  no part: the witness destroys a video record without the field as an image.
\<close>

theorem destroy_resource_type:
  "resourceType (make_fileData f result now) = result_resource_type result
   \<and> (findIndex (\<lambda>f. file_id f = fileId) (filesDatabase db) = Some i \<longrightarrow>
        calls_of (delete_file fileId outcome db)
          = [Destroy fileId
               (case resourceType (filesDatabase db ! i) of
                  None \<Rightarrow> ''image''
                | Some t \<Rightarrow> if t = [] then ''image'' else t)])"
  by (cases outcome)
     (simp_all add: make_fileData_def delete_file_def calls_of_def Let_def js_or_def)

theorem destroy_resource_type_witness:
  "findIndex (\<lambda>f. file_id f = ''uploads/clip'') (filesDatabase db2) = Some 0
   \<and> type (filesDatabase db2 ! 0) = ''video/mp4''
   \<and> calls_of (delete_file ''uploads/clip'' DestroyOk db2) = [Destroy ''uploads/clip'' ''image'']
   \<and> findIndex (\<lambda>f. file_id f = ''uploads/a'') (filesDatabase db1) = Some 0
   \<and> calls_of (delete_file ''uploads/a'' DestroyOk db1) = [Destroy ''uploads/a'' ''image'']"
proof -
  have h: "findIndex (\<lambda>f. file_id f = ''uploads/clip'') (filesDatabase db2) = Some 0"
    by (simp add: db2_def)
  have r: "resourceType (filesDatabase db2 ! 0) = None"
    by (simp add: db2_def)
  have t: "type (filesDatabase db2 ! 0) = ''video/mp4''"
    by (simp add: db2_def)
  have h1: "findIndex (\<lambda>f. file_id f = ''uploads/a'') (filesDatabase db1) = Some 0"
    by (simp add: db1_def)
  have r1: "resourceType (filesDatabase db1 ! 0) = Some ''image''"
    by (simp add: db1_def)
  from destroy_resource_type [of png png_result "''t''" "''uploads/clip''" db2 0 DestroyOk]
       destroy_resource_type [of png png_result "''t''" "''uploads/a''" db1 0 DestroyOk]
       h r t h1 r1
  show ?thesis
    by simp
qed

section \<open>Uploads and deletes together\<close>

text \<open>
  C4: the record stores the MIME type of the upload as its \<^verbatim>\<open>type\<close>; a successful
  upload adds one to the total and one to the counter of the bucket of the MIME type, and
  a successful delete of a record that is present takes one from the total and one from
  the counter of the bucket of the stored \<^verbatim>\<open>type\<close>. The bucket is \<open>spec_classify\<close> in
  both, and the other two bucket counters keep their values. The three examples of the
  specification are the last conjuncts.
\<close>

theorem stats_bucket_classification:
  "type (make_fileData f result now) = mimetype f
   \<and> (let st = statsDatabase db;
           st' = statsDatabase (registry_of (post_upload (Some f) (UploadOk result) now db));
           b = spec_classify (mimetype f)
       in totalUploads st' = totalUploads st + 1
          \<and> totalImages st' = totalImages st + of_bool (b = Images)
          \<and> totalVideos st' = totalVideos st + of_bool (b = Videos)
          \<and> totalOthers st' = totalOthers st + of_bool (b = Others))
   \<and> (findIndex (\<lambda>f. file_id f = fileId) (filesDatabase db) = Some i \<longrightarrow>
       (let st = statsDatabase db;
            st' = statsDatabase (registry_of (delete_file fileId DestroyOk db));
            b = spec_classify (type (filesDatabase db ! i))
        in totalUploads st' = totalUploads st - 1
           \<and> totalImages st' = totalImages st - of_bool (b = Images)
           \<and> totalVideos st' = totalVideos st - of_bool (b = Videos)
           \<and> totalOthers st' = totalOthers st - of_bool (b = Others)))
   \<and> spec_classify ''image/png'' = Images
   \<and> spec_classify ''video/mp4'' = Videos
   \<and> spec_classify ''application/pdf'' = Others"
  by (simp add: make_fileData_def post_upload_def delete_file_def registry_of_def Let_def
        spec_classify_def startsWith_prefix)

theorem stats_bucket_classification_witness:
  "findIndex (\<lambda>f. file_id f = ''uploads/a'') (filesDatabase db1) = Some 0
   \<and> spec_classify (type (filesDatabase db1 ! 0)) = Images
   \<and> statsDatabase (registry_of (delete_file ''uploads/a'' DestroyOk db1))
       = \<lparr>totalUploads = 0, totalImages = 0, totalVideos = 0, totalOthers = 0\<rparr>
   \<and> statsDatabase (registry_of (post_upload (Some png) (UploadOk png_result) ''t'' db1))
       = \<lparr>totalUploads = 2, totalImages = 2, totalVideos = 0, totalOthers = 0\<rparr>"
proof -
  have h: "findIndex (\<lambda>f. file_id f = ''uploads/a'') (filesDatabase db1) = Some 0"
    by (simp add: db1_def)
  have c: "spec_classify (type (filesDatabase db1 ! 0)) = Images"
    by (simp add: db1_def spec_classify_def)
  have c': "spec_classify (mimetype png) = Images"
    by (simp add: png_def spec_classify_def)
  have s: "statsDatabase db1
             = \<lparr>totalUploads = 1, totalImages = 1, totalVideos = 0, totalOthers = 0\<rparr>"
    by (simp add: db1_def)
  from stats_bucket_classification [of png png_result "''t''" db1 "''uploads/a''" 0] h c c' s
  show ?thesis
    by (simp add: Let_def)
qed

text \<open>
  A successful upload followed at once by a successful delete of the identifier the
  provider gave: the delete finds the new record at index 0, whatever the array held.
\<close>

lemma upload_then_delete:
  "delete_file (public_id result) DestroyOk
     (registry_of (post_upload (Some f) (UploadOk result) now db))
   = (\<lparr>status = 200,
        body = [(''success'', JBool True), (''message'', JStr ''File deleted successfully''),
                (''stats'', JStats (statsDatabase db))]\<rparr>,
      [Destroy (public_id result) (js_or (result_resource_type result) ''image'')],
      db)"
  by (simp add: post_upload_def delete_file_def registry_of_def Let_def make_fileData_def
        splice_def)

text \<open>
  C6: for a record whose identifier is not in the array yet, a successful upload makes
  the array one longer, with the new record in it, and adds one to the total and to the
  counter of the bucket of the MIME type; the delete of that identifier right after it
  is answered 200, calls the provider's destroy for it, takes one from the total and
  from the counter of that same bucket, and gives back the array at its former length:
  the registry is as it was before the upload, array and counters.
\<close>

theorem upload_delete_round_trip:
  assumes "public_id result \<notin> file_id ` set (filesDatabase db)"
  shows
    "(let mid = registry_of (post_upload (Some f) (UploadOk result) now db);
          fin = delete_file (file_id (make_fileData f result now)) DestroyOk mid;
          b = spec_classify (mimetype f)
      in filesDatabase mid = make_fileData f result now # filesDatabase db
         \<and> length (filesDatabase mid) = length (filesDatabase db) + 1
         \<and> file_id (make_fileData f result now) \<in> file_id ` set (filesDatabase mid)
         \<and> totalUploads (statsDatabase mid) = totalUploads (statsDatabase db) + 1
         \<and> totalImages (statsDatabase mid) = totalImages (statsDatabase db) + of_bool (b = Images)
         \<and> totalVideos (statsDatabase mid) = totalVideos (statsDatabase db) + of_bool (b = Videos)
         \<and> totalOthers (statsDatabase mid) = totalOthers (statsDatabase db) + of_bool (b = Others)
         \<and> status (response_of fin) = 200
         \<and> calls_of fin
             = [Destroy (public_id result) (js_or (result_resource_type result) ''image'')]
         \<and> totalUploads (statsDatabase (registry_of fin)) = totalUploads (statsDatabase mid) - 1
         \<and> totalImages (statsDatabase (registry_of fin))
             = totalImages (statsDatabase mid) - of_bool (b = Images)
         \<and> totalVideos (statsDatabase (registry_of fin))
             = totalVideos (statsDatabase mid) - of_bool (b = Videos)
         \<and> totalOthers (statsDatabase (registry_of fin))
             = totalOthers (statsDatabase mid) - of_bool (b = Others)
         \<and> length (filesDatabase (registry_of fin)) = length (filesDatabase db)
         \<and> registry_of fin = db)"
proof -
  have i: "file_id (make_fileData f result now) = public_id result"
    by (simp add: make_fileData_def)
  have fin: "delete_file (file_id (make_fileData f result now)) DestroyOk
               (registry_of (post_upload (Some f) (UploadOk result) now db))
             = (\<lparr>status = 200,
                  body = [(''success'', JBool True),
                          (''message'', JStr ''File deleted successfully''),
                          (''stats'', JStats (statsDatabase db))]\<rparr>,
                [Destroy (public_id result) (js_or (result_resource_type result) ''image'')],
                db)"
    unfolding i by (rule upload_then_delete)
  have mid: "registry_of (post_upload (Some f) (UploadOk result) now db)
             = \<lparr>filesDatabase = make_fileData f result now # filesDatabase db,
                statsDatabase =
                  (if startsWith (mimetype f) ''image/''
                   then (statsDatabase db)
                          \<lparr>totalUploads := totalUploads (statsDatabase db) + 1,
                           totalImages := totalImages (statsDatabase db) + 1\<rparr>
                   else if startsWith (mimetype f) ''video/''
                   then (statsDatabase db)
                          \<lparr>totalUploads := totalUploads (statsDatabase db) + 1,
                           totalVideos := totalVideos (statsDatabase db) + 1\<rparr>
                   else (statsDatabase db)
                          \<lparr>totalUploads := totalUploads (statsDatabase db) + 1,
                           totalOthers := totalOthers (statsDatabase db) + 1\<rparr>)\<rparr>"
    by (simp add: post_upload_def registry_of_def Let_def)
  have parts:
    "response_of (r, cs, d) = r" "calls_of (r, cs, d) = cs" "registry_of (r, cs, d) = d"
    for r cs d
    by (simp_all add: response_of_def calls_of_def registry_of_def)
  show ?thesis
    unfolding Let_def
    by (simp only: fin) (simp add: mid parts spec_classify_def startsWith_prefix)
qed

theorem upload_delete_round_trip_witness:
  "public_id png_result \<notin> file_id ` set (filesDatabase db1)
   \<and> length (filesDatabase
        (registry_of (post_upload (Some png) (UploadOk png_result) ''t'' db1))) = 2
   \<and> statsDatabase (registry_of (post_upload (Some png) (UploadOk png_result) ''t'' db1))
       = \<lparr>totalUploads = 2, totalImages = 2, totalVideos = 0, totalOthers = 0\<rparr>
   \<and> status (response_of (delete_file ''uploads/cat_x1'' DestroyOk
        (registry_of (post_upload (Some png) (UploadOk png_result) ''t'' db1)))) = 200
   \<and> registry_of (delete_file ''uploads/cat_x1'' DestroyOk
        (registry_of (post_upload (Some png) (UploadOk png_result) ''t'' db1))) = db1"
proof -
  have h: "public_id png_result \<notin> file_id ` set (filesDatabase db1)"
    by (simp add: db1_def png_result_def)
  have i: "file_id (make_fileData png png_result ''t'') = ''uploads/cat_x1''"
    by (simp add: make_fileData_def png_result_def)
  have c: "spec_classify (mimetype png) = Images"
    by (simp add: png_def spec_classify_def)
  have l: "length (filesDatabase db1) = 1"
    by (simp add: db1_def)
  have s: "statsDatabase db1
             = \<lparr>totalUploads = 1, totalImages = 1, totalVideos = 0, totalOthers = 0\<rparr>"
    by (simp add: db1_def)
  from upload_delete_round_trip [OF h, of png "''t''"] h i c l s show ?thesis
    by (simp add: Let_def)
qed

text \<open>
  C7: a request that is not answered with status 200 leaves the array and the counters
  as they were. In particular an upload whose remote call fails (the callback's error,
  or an exception in the handler) is answered 500 and inserts nothing, and a delete of a
  present record whose remote destroy fails is answered 500 and keeps the record and the
  counters.
\<close>

theorem failure_leaves_registry:
  "(status (response_of (handle env r db)) \<noteq> 200 \<longrightarrow> registry_of (handle env r db) = db)
   \<and> status (response_of (post_upload (Some f) (UploadError msg) now db)) = 500
   \<and> registry_of (post_upload (Some f) (UploadError msg) now db) = db
   \<and> status (response_of (post_upload (Some f) (UploadThrows msg) now db)) = 500
   \<and> registry_of (post_upload (Some f) (UploadThrows msg) now db) = db
   \<and> (findIndex (\<lambda>f. file_id f = fileId) (filesDatabase db) = Some i \<longrightarrow>
        status (response_of (delete_file fileId (DestroyRejects msg) db)) = 500
        \<and> registry_of (delete_file fileId (DestroyRejects msg) db) = db)"
proof -
  have "status (response_of (handle env r db)) \<noteq> 200 \<longrightarrow> registry_of (handle env r db) = db"
  proof (cases r)
    case (PostUpload upl outcome now')
    then show ?thesis
      by (cases upl; cases outcome)
         (simp_all add: post_upload_def response_of_def registry_of_def Let_def)
  next
    case (DeleteFile fid outcome)
    then show ?thesis
      by (cases outcome)
         (simp_all add: delete_file_def response_of_def registry_of_def Let_def
            split: option.split)
  qed (simp_all add: get_files_def get_stats_def get_health_def registry_of_def)
  then show ?thesis
    by (simp add: post_upload_def delete_file_def response_of_def registry_of_def Let_def)
qed

theorem failure_leaves_registry_witness:
  "findIndex (\<lambda>f. file_id f = ''uploads/a'') (filesDatabase db1) = Some 0
   \<and> status (response_of
        (handle env1 (DeleteFile ''uploads/a'' (DestroyRejects ''timeout'')) db1)) \<noteq> 200
   \<and> status (response_of (delete_file ''uploads/a'' (DestroyRejects ''timeout'') db1)) = 500
   \<and> registry_of (delete_file ''uploads/a'' (DestroyRejects ''timeout'') db1) = db1
   \<and> registry_of (handle env1 (DeleteFile ''uploads/a'' (DestroyRejects ''timeout'')) db1)
       = db1"
proof -
  have h: "findIndex (\<lambda>f. file_id f = ''uploads/a'') (filesDatabase db1) = Some 0"
    by (simp add: db1_def)
  from failure_leaves_registry
         [of env1 "DeleteFile ''uploads/a'' (DestroyRejects ''timeout'')" db1 png
             "''timeout''" "''t''" "''uploads/a''" 0] h
  show ?thesis
    by simp
qed

section \<open>The health check\<close>

text \<open>
  C8, as stated, fails: the body of the health response has no property named
  \<^verbatim>\<open>cloudinaryConfigured\<close>; the boolean is the property \<^verbatim>\<open>cloudinary\<close>. Here the
  account name is configured as \<^verbatim>\<open>demo\<close>.
\<close>

theorem health_field_counterexample:
  "map_of (body (response_of (get_health env1 initial))) ''cloudinaryConfigured'' = None
   \<and> map_of (body (response_of (get_health env1 initial))) ''cloudinary'' = Some (JBool True)"
  by (simp add: get_health_def response_of_def env1_def truthy_def)

text \<open>
  C8, amended: GET /api/health answers 200 with the three properties \<^verbatim>\<open>success\<close>
  (true), \<^verbatim>\<open>message\<close> and \<^verbatim>\<open>cloudinary\<close>, the last a boolean that is true exactly
  when the environment variable \<^verbatim>\<open>CLOUDINARY_CLOUD_NAME\<close> is set to a non-empty
  string; it makes no remote call and leaves the registry alone.
\<close>

theorem health_response:
  "get_health env db
     = (\<lparr>status = 200,
          body = [(''success'', JBool True),
                  (''message'', JStr ''Server is running''),
                  (''cloudinary'',
                   JBool (env ''CLOUDINARY_CLOUD_NAME'' \<noteq> None
                          \<and> env ''CLOUDINARY_CLOUD_NAME'' \<noteq> Some []))]\<rparr>,
        [], db)"
  by (simp add: get_health_def truthy_def split: option.split)

end
